theory Spec2Isabelle
  imports Main
begin

section \<open>The "accept interfaces, return structs" example: service, store, wiring\<close>

text \<open>
  The Go code under study is the package \<^verbatim>\<open>service\<close> (service.go), the package
  \<^verbatim>\<open>db\<close> (db/db.go, printed in the best-practices page) and the example
  \<^verbatim>\<open>main\<close>. This theory embeds them as HOL functions. Go passes records by
  pointer and lets a store write through the pointer it is given, so memory is
  explicit: a world holds the cells of type \<^verbatim>\<open>User\<close> and the state that
  the store implementation owns. A call that panics has the outcome \<open>Panic\<close>.
\<close>

subsection \<open>Data\<close>

text \<open>\<^verbatim>\<open>type User struct { ID string; Email string }\<close>\<close>

record User =
  ID :: string
  Email :: string

text \<open>The zero value of \<^verbatim>\<open>User\<close>, which \<^verbatim>\<open>var user User\<close> and \<^verbatim>\<open>User{}\<close> denote.\<close>

definition User_zero :: User where
  "User_zero = \<lparr>ID = [], Email = []\<rparr>"

text \<open>A non-nil value of the interface \<^verbatim>\<open>error\<close>, with the text its \<^verbatim>\<open>Error()\<close> gives.
  The Go value \<^verbatim>\<open>nil\<close> of type \<^verbatim>\<open>error\<close> is \<open>None :: error option\<close>.\<close>

datatype error = Error (message: string)

type_synonym addr = nat

text \<open>
  The values of type \<^verbatim>\<open>interface{}\<close> that this program builds: the nil interface,
  a \<^verbatim>\<open>User\<close> held by value, and a \<^verbatim>\<open>*User\<close> (the pointer itself may be nil:
  \<open>UserPtr None\<close>).
\<close>

datatype val = NilVal | UserVal User | UserPtr "addr option"

text \<open>\<^verbatim>\<open>context.Context\<close>: the service never looks at it.\<close>

datatype Context = Background | TODO

text \<open>
  A call either returns or panics. Nothing in the service recovers from a panic, so a
  panic of a store method is the outcome of the service call around it.
\<close>

datatype 'a outcome = Panic | Return 'a

text \<open>
  The memory a call runs in: \<open>heap\<close> gives the contents of every cell of type
  \<^verbatim>\<open>User\<close>, the cells below \<open>brk\<close> are the allocated ones, and \<open>backend\<close> is
  the state owned by the store implementation (for \<^verbatim>\<open>db.Store\<close>, the struct itself).
\<close>

record 's world =
  heap :: "addr \<Rightarrow> User"
  brk :: addr
  backend :: 's

text \<open>Allocation of a new cell holding \<open>v\<close>; Go never reuses a live address.\<close>

definition alloc_User :: "User \<Rightarrow> 's world \<Rightarrow> addr \<times> 's world" where
  "alloc_User v w = (brk w, w\<lparr>heap := (heap w)(brk w := v), brk := Suc (brk w)\<rparr>)"

subsection \<open>service.go\<close>

text \<open>
  \<^verbatim>\<open>type UserStorer interface {
      Insert(item interface{}) error
      Get(id string, val interface{}) error
  }\<close>
  A value of the interface is the pair of its methods, bound to their receiver. A method
  may read and write the world, return an error or nil, or panic.
\<close>

record 's UserStorer =
  Insert :: "val \<Rightarrow> 's world \<Rightarrow> (error option \<times> 's world) outcome"
  Get :: "string \<Rightarrow> val \<Rightarrow> 's world \<Rightarrow> (error option \<times> 's world) outcome"

text \<open>
  \<^verbatim>\<open>type UserService struct { store UserStorer }\<close>
  The field is an interface value, so it may be nil (\<open>None\<close>). It is unexported: code
  outside the package, a store included, cannot assign it, which is why the store's
  methods act on the world and not on the service.
\<close>

record 's UserService =
  store :: "'s UserStorer option"

definition NewUserService :: "'s UserStorer option \<Rightarrow> 's UserService" where
  "NewUserService s = \<lparr>store = s\<rparr>"

text \<open>
  \<^verbatim>\<open>func (u *UserService) CreateUser(ctx context.Context, user *User) error {
      err := u.store.Insert(user)
      if err != nil {
          return err
      }
      return nil
  }\<close>
  The receiver is passed by pointer, so the model returns it next to the error and the
  world. Calling a method of a nil interface panics.
\<close>

definition CreateUser ::
  "'s UserService \<Rightarrow> Context \<Rightarrow> addr option \<Rightarrow> 's world
    \<Rightarrow> (error option \<times> 's UserService \<times> 's world) outcome" where
  "CreateUser u ctx user w =
     (case store u of
        None \<Rightarrow> Panic
      | Some st \<Rightarrow>
          (case Insert st (UserPtr user) w of
             Panic \<Rightarrow> Panic
           | Return (err, w') \<Rightarrow>
               if err \<noteq> None then Return (err, u, w')
               else Return (None, u, w')))"

text \<open>
  \<^verbatim>\<open>func (u *UserService) RetrieveUser(ctx context.Context, id string) (interface{}, error) {
      var user User
      err := u.store.Get(id, &user)
      if err != nil {
          return nil, err
      }
      return user, nil
  }\<close>
\<close>

definition RetrieveUser ::
  "'s UserService \<Rightarrow> Context \<Rightarrow> string \<Rightarrow> 's world
    \<Rightarrow> ((val \<times> error option) \<times> 's UserService \<times> 's world) outcome" where
  "RetrieveUser u ctx id' w =
     (let (user, w1) = alloc_User User_zero w in
      case store u of
        None \<Rightarrow> Panic
      | Some st \<Rightarrow>
          (case Get st id' (UserPtr (Some user)) w1 of
             Panic \<Rightarrow> Panic
           | Return (err, w2) \<Rightarrow>
               if err \<noteq> None then Return ((NilVal, err), u, w2)
               else Return ((UserVal (heap w2 user), None), u, w2)))"

text \<open>
  The version of \<^verbatim>\<open>CreateUser\<close> printed in the best-practices page takes the record
  by value:
  \<^verbatim>\<open>func (u *UserService) CreateUser(ctx context.Context, user User) error {
      err := u.store.Insert(user)
      if err != nil {
          return err
      }
      return nil
  }\<close>
\<close>

definition CreateUser_value ::
  "'s UserService \<Rightarrow> Context \<Rightarrow> User \<Rightarrow> 's world
    \<Rightarrow> (error option \<times> 's UserService \<times> 's world) outcome" where
  "CreateUser_value u ctx user w =
     (case store u of
        None \<Rightarrow> Panic
      | Some st \<Rightarrow>
          (case Insert st (UserVal user) w of
             Panic \<Rightarrow> Panic
           | Return (err, w') \<Rightarrow>
               if err \<noteq> None then Return (err, u, w')
               else Return (None, u, w')))"

subsection \<open>db/db.go\<close>

text \<open>
  \<^verbatim>\<open>type Store struct { db *sql.DB }\<close>
  \<^verbatim>\<open>sql.DB\<close> belongs to the standard library; the only value of it that the program
  builds is the zero value \<^verbatim>\<open>sql.DB{}\<close>.
\<close>

datatype sql_DB = sql_DB_zero

record Store =
  db :: "sql_DB option"

text \<open>\<^verbatim>\<open>func NewDB() *Store { return &Store{db: &sql.DB{}} }\<close>\<close>

definition NewDB :: Store where
  "NewDB = \<lparr>db = Some sql_DB_zero\<rparr>"

text \<open>
  \<^verbatim>\<open>func (s *Store) Insert(item interface{}) error {
      //... to-do
      return nil
  }\<close>
\<close>

definition Store_Insert :: "val \<Rightarrow> Store world \<Rightarrow> (error option \<times> Store world) outcome" where
  "Store_Insert item w = Return (None, w)"

text \<open>
  \<^verbatim>\<open>func (s *Store) Get(id string, val interface{}) error {
      //... to-do
      return nil
  }\<close>
\<close>

definition Store_Get ::
  "string \<Rightarrow> val \<Rightarrow> Store world \<Rightarrow> (error option \<times> Store world) outcome" where
  "Store_Get id' val w = Return (None, w)"

text \<open>A \<^verbatim>\<open>*Store\<close> seen through the interface \<^verbatim>\<open>UserStorer\<close>.\<close>

definition Store_UserStorer :: "Store UserStorer" where
  "Store_UserStorer = \<lparr>Insert = Store_Insert, Get = Store_Get\<rparr>"

subsection \<open>main.go\<close>

text \<open>
  What \<^verbatim>\<open>main\<close> uses of the package \<^verbatim>\<open>fmt\<close>, writing to a standard output that
  accepts every byte: the decimal form of a non-negative \<^verbatim>\<open>int\<close>, the form
  \<^verbatim>\<open>%+v\<close> of a non-nil \<^verbatim>\<open>*User\<close>, and the error built by
  \<^verbatim>\<open>fmt.Errorf("error: %s", err)\<close>.
\<close>

fun fmt_int :: "nat \<Rightarrow> string" where
  "fmt_int n =
     (if n < 10 then [''0123456789'' ! n]
      else fmt_int (n div 10) @ [''0123456789'' ! (n mod 10)])"

definition fmt_User_ptr :: "User \<Rightarrow> string" where
  "fmt_User_ptr r = ''&{ID:'' @ ID r @ '' Email:'' @ Email r @ ''}''"

definition Errorf_error :: "error \<Rightarrow> error" where
  "Errorf_error err = Error (''error: '' @ message err)"

text \<open>The process starts with nothing allocated.\<close>

definition world_init :: "'s \<Rightarrow> 's world" where
  "world_init b = \<lparr>heap = (\<lambda>_. User_zero), brk = 0, backend = b\<rparr>"

text \<open>
  \<^verbatim>\<open>func main() {
      ctx := context.Background()
      store := db.NewDB()
      useService := service.NewUserService(store)

      user := &service.User{}
      if err := useService.CreateUser(ctx, user); err != nil {
          fmt.Println(fmt.Errorf("error: %s", err))
      }

      fmt.Println(fmt.Printf("User created: %+v", user))
  }\<close>
  The result is the text written to the standard output and the final world. \<^verbatim>\<open>Printf\<close>
  returns the number of bytes it wrote and a nil error, which \<^verbatim>\<open>Println\<close> prints.
\<close>

definition main :: "(string \<times> Store world) outcome" where
  "main =
     (let ctx = Background;
          w0 = world_init NewDB;
          useService = NewUserService (Some Store_UserStorer);
          (user, w1) = alloc_User User_zero w0
      in case CreateUser useService ctx (Some user) w1 of
           Panic \<Rightarrow> Panic
         | Return (err, useService', w2) \<Rightarrow>
             (let out1 = (case err of
                            None \<Rightarrow> []
                          | Some e \<Rightarrow> message (Errorf_error e) @ [CHR 0x0A]);
                  line = ''User created: '' @ fmt_User_ptr (heap w2 user)
              in Return (out1 @ line @ fmt_int (length line) @ '' <nil>'' @ [CHR 0x0A], w2)))"

text \<open>
  The scenarios of the specification run this wiring with another record, or in front of
  another store. \<open>wiring\<close> is the body of \<^verbatim>\<open>main\<close> with the three things it fixes as
  parameters: the store (its methods \<open>s\<close> and its initial state \<open>b\<close>) and the record
  literal \<open>lit\<close>. \<^verbatim>\<open>main\<close> is its instance at \<^verbatim>\<open>db.NewDB()\<close> and \<^verbatim>\<open>service.User{}\<close>
  (lemma \<open>main_wiring\<close> below).
\<close>

definition wiring :: "'s UserStorer \<Rightarrow> 's \<Rightarrow> User \<Rightarrow> (string \<times> 's world) outcome" where
  "wiring s b lit =
     (let ctx = Background;
          w0 = world_init b;
          useService = NewUserService (Some s);
          (user, w1) = alloc_User lit w0
      in case CreateUser useService ctx (Some user) w1 of
           Panic \<Rightarrow> Panic
         | Return (err, useService', w2) \<Rightarrow>
             (let out1 = (case err of
                            None \<Rightarrow> []
                          | Some e \<Rightarrow> message (Errorf_error e) @ [CHR 0x0A]);
                  line = ''User created: '' @ fmt_User_ptr (heap w2 user)
              in Return (out1 @ line @ fmt_int (length line) @ '' <nil>'' @ [CHR 0x0A], w2)))"

subsection \<open>A client calling the service repeatedly\<close>

text \<open>
  A sequence of calls issued on one service, each call starting in the world and with the
  receiver that the call before it left. A panic ends the sequence.
\<close>

datatype call = Create Context "addr option" | Retrieve Context string

fun calls :: "call list \<Rightarrow> 's UserService \<Rightarrow> 's world \<Rightarrow> ('s UserService \<times> 's world) outcome" where
  "calls [] u w = Return (u, w)"
| "calls (Create ctx user # cs) u w =
     (case CreateUser u ctx user w of
        Panic \<Rightarrow> Panic
      | Return (err, u', w') \<Rightarrow> calls cs u' w')"
| "calls (Retrieve ctx id' # cs) u w =
     (case RetrieveUser u ctx id' w of
        Panic \<Rightarrow> Panic
      | Return (r, u', w') \<Rightarrow> calls cs u' w')"

subsection \<open>A second store, used as an input\<close>

text \<open>
  The theorems about the service hold for every store. To run them on a store that does
  fail and does write the output slot, unlike \<^verbatim>\<open>db.Store\<close>, here is one that keeps
  the records in a list: \<open>Insert\<close> prepends the record it is given (by value or through a
  non-nil pointer), \<open>Get\<close> copies the record found under the identifier to the slot, and
  each returns an error for anything else. It is an input of the theorems, not code of the
  repository.
\<close>

definition mem_Insert ::
  "val \<Rightarrow> (string \<times> User) list world \<Rightarrow> (error option \<times> (string \<times> User) list world) outcome" where
  "mem_Insert item w =
     (case item of
        UserVal r \<Rightarrow> Return (None, w\<lparr>backend := (ID r, r) # backend w\<rparr>)
      | UserPtr (Some a) \<Rightarrow> Return (None, w\<lparr>backend := (ID (heap w a), heap w a) # backend w\<rparr>)
      | _ \<Rightarrow> Return (Some (Error ''no record''), w))"

definition mem_Get ::
  "string \<Rightarrow> val \<Rightarrow> (string \<times> User) list world
    \<Rightarrow> (error option \<times> (string \<times> User) list world) outcome" where
  "mem_Get id' slot w =
     (case slot of
        UserPtr (Some a) \<Rightarrow>
          (case map_of (backend w) id' of
             None \<Rightarrow> Return (Some (Error ''not found''), w)
           | Some r \<Rightarrow> Return (None, w\<lparr>heap := (heap w)(a := r)\<rparr>))
      | _ \<Rightarrow> Return (Some (Error ''no slot''), w))"

definition mem_UserStorer :: "(string \<times> User) list UserStorer" where
  "mem_UserStorer = \<lparr>Insert = mem_Insert, Get = mem_Get\<rparr>"

section \<open>Properties\<close>

subsection \<open>What the definitions compute\<close>

lemma store_NewUserService: "store (NewUserService s) = s"
  by (simp add: NewUserService_def)

lemma Insert_Store_UserStorer: "Insert Store_UserStorer = Store_Insert"
  by (simp add: Store_UserStorer_def)

lemma Get_Store_UserStorer: "Get Store_UserStorer = Store_Get"
  by (simp add: Store_UserStorer_def)

lemma CreateUser_Some:
  "store u = Some st \<Longrightarrow>
   CreateUser u ctx user w = map_outcome (\<lambda>(err, w'). (err, u, w')) (Insert st (UserPtr user) w)"
  by (cases "Insert st (UserPtr user) w") (auto simp: CreateUser_def)

lemma CreateUser_value_Some:
  "store u = Some st \<Longrightarrow>
   CreateUser_value u ctx r w = map_outcome (\<lambda>(err, w'). (err, u, w')) (Insert st (UserVal r) w)"
  by (cases "Insert st (UserVal r) w") (auto simp: CreateUser_value_def)

lemma CreateUser_receiver:
  "CreateUser u ctx user w = Return (err, u', w') \<Longrightarrow> u' = u"
  by (auto simp: CreateUser_def split: option.splits outcome.splits if_splits)

lemma RetrieveUser_receiver:
  "RetrieveUser u ctx id' w = Return (r, u', w') \<Longrightarrow> u' = u"
  by (auto simp: RetrieveUser_def Let_def split: option.splits outcome.splits if_splits prod.splits)

lemma calls_receiver:
  "calls cs u w = Return (u', w') \<Longrightarrow> u' = u"
proof (induction cs arbitrary: w)
  case Nil
  then show ?case by simp
next
  case (Cons c cs)
  show ?case
  proof (cases c)
    case (Create ctx user)
    with Cons.prems obtain err u1 w1 where
      c1: "CreateUser u ctx user w = Return (err, u1, w1)" and rest: "calls cs u1 w1 = Return (u', w')"
      by (auto split: outcome.splits)
    from c1 have "u1 = u" by (rule CreateUser_receiver)
    with rest Cons.IH show ?thesis by simp
  next
    case (Retrieve ctx id')
    with Cons.prems obtain r u1 w1 where
      c1: "RetrieveUser u ctx id' w = Return (r, u1, w1)" and rest: "calls cs u1 w1 = Return (u', w')"
      by (auto split: outcome.splits)
    from c1 have "u1 = u" by (rule RetrieveUser_receiver)
    with rest Cons.IH show ?thesis by simp
  qed
qed

lemma Store_Insert_noop: "Store_Insert item w = Return (None, w)"
  by (simp add: Store_Insert_def)

lemma Store_Get_noop: "Store_Get id' slot w = Return (None, w)"
  by (simp add: Store_Get_def)

lemma CreateUser_Store:
  "CreateUser (NewUserService (Some Store_UserStorer)) ctx user w
     = Return (None, NewUserService (Some Store_UserStorer), w)"
  by (simp add: CreateUser_Some [OF store_NewUserService] Insert_Store_UserStorer Store_Insert_noop)

lemma CreateUser_value_Store:
  "CreateUser_value (NewUserService (Some Store_UserStorer)) ctx r w
     = Return (None, NewUserService (Some Store_UserStorer), w)"
  by (simp add: CreateUser_value_Some [OF store_NewUserService] Insert_Store_UserStorer Store_Insert_noop)

lemma RetrieveUser_Some:
  "store u = Some st \<Longrightarrow>
   RetrieveUser u ctx id' w =
     (case Get st id' (UserPtr (Some (brk w))) (snd (alloc_User User_zero w)) of
        Panic \<Rightarrow> Panic
      | Return (err, w2) \<Rightarrow>
          (case err of
             None \<Rightarrow> Return ((UserVal (heap w2 (brk w)), None), u, w2)
           | Some e \<Rightarrow> Return ((NilVal, Some e), u, w2)))"
  by (auto simp: RetrieveUser_def alloc_User_def split: outcome.splits option.splits)

lemma RetrieveUser_Store:
  "RetrieveUser (NewUserService (Some Store_UserStorer)) ctx id' w
     = Return ((UserVal User_zero, None), NewUserService (Some Store_UserStorer),
               snd (alloc_User User_zero w))"
  by (simp add: RetrieveUser_Some [OF store_NewUserService] Get_Store_UserStorer Store_Get_noop
        alloc_User_def)

lemma mem_Get_missing:
  "map_of (backend w) id' = None \<Longrightarrow>
   Get mem_UserStorer id' (UserPtr (Some a)) w = Return (Some (Error ''not found''), w)"
  by (simp add: mem_UserStorer_def mem_Get_def)

lemma mem_Get_found:
  "map_of (backend w) id' = Some r \<Longrightarrow>
   Get mem_UserStorer id' (UserPtr (Some a)) w = Return (None, w\<lparr>heap := (heap w)(a := r)\<rparr>)"
  by (simp add: mem_UserStorer_def mem_Get_def)

lemma calls_Store_example:
  "calls [Create Background (Some 0), Retrieve TODO ''1'', Create TODO None]
      (NewUserService (Some Store_UserStorer)) (world_init NewDB)
     = Return (NewUserService (Some Store_UserStorer), snd (alloc_User User_zero (world_init NewDB)))"
  by (simp add: CreateUser_Store RetrieveUser_Store)

lemma main_wiring: "main = wiring Store_UserStorer NewDB User_zero"
  by (simp add: main_def wiring_def)

lemma mem_Insert_pointer:
  "Insert mem_UserStorer (UserPtr (Some a)) w
     = Return (None, w\<lparr>backend := (ID (heap w a), heap w a) # backend w\<rparr>)"
  by (simp add: mem_UserStorer_def mem_Insert_def)

subsection \<open>The service in front of any store\<close>

text \<open>
  C1. For every store \<open>s\<close> and every user pointer, \<^verbatim>\<open>CreateUser\<close> on the service built
  from \<open>s\<close> returns the error of \<open>s.Insert(user)\<close> as it is, in the world that call
  left (and panics exactly when that call panics). So it returns nil if and only if
  \<open>Insert\<close> returns nil, and a store whose \<open>Insert\<close> never fails makes it return nil.
\<close>

theorem CreateUser_returns_Insert_error:
  "CreateUser (NewUserService (Some s)) ctx user w =
     map_outcome (\<lambda>(err, w'). (err, NewUserService (Some s), w')) (Insert s (UserPtr user) w)
   \<and> ((\<exists>u' w'. CreateUser (NewUserService (Some s)) ctx user w = Return (None, u', w'))
        \<longleftrightarrow> (\<exists>w'. Insert s (UserPtr user) w = Return (None, w')))
   \<and> ((\<forall>item w0. \<exists>w'. Insert s item w0 = Return (None, w'))
        \<longrightarrow> (\<exists>u' w'. CreateUser (NewUserService (Some s)) ctx user w = Return (None, u', w')))"
proof -
  let ?u = "NewUserService (Some s)"
  have eq: "CreateUser ?u ctx user w =
      map_outcome (\<lambda>(err, w'). (err, ?u, w')) (Insert s (UserPtr user) w)"
    by (rule CreateUser_Some) (rule store_NewUserService)
  have iff: "(\<exists>u' w'. CreateUser ?u ctx user w = Return (None, u', w'))
        \<longleftrightarrow> (\<exists>w'. Insert s (UserPtr user) w = Return (None, w'))"
    unfolding eq by (cases "Insert s (UserPtr user) w") auto
  have never: "\<exists>u' w'. CreateUser ?u ctx user w = Return (None, u', w')"
    if "\<forall>item w0. \<exists>w'. Insert s item w0 = Return (None, w')"
  proof -
    from that have "\<exists>w'. Insert s (UserPtr user) w = Return (None, w')" by blast
    with iff show ?thesis by simp
  qed
  from eq iff never show ?thesis by blast
qed

text \<open>
  C1 at two stores: the list store refuses a nil pointer and \<^verbatim>\<open>CreateUser\<close> returns that
  very error; \<^verbatim>\<open>db.Store\<close> never fails and \<^verbatim>\<open>CreateUser\<close> returns nil.
\<close>

theorem CreateUser_returns_Insert_error_witness:
  "CreateUser (NewUserService (Some mem_UserStorer)) Background None (world_init [])
     = Return (Some (Error ''no record''), NewUserService (Some mem_UserStorer), world_init [])
   \<and> (\<forall>item w0. \<exists>w'. Insert Store_UserStorer item w0 = Return (None, w'))
   \<and> (\<exists>u' w'. CreateUser (NewUserService (Some Store_UserStorer)) TODO (Some 0) (world_init NewDB)
         = Return (None, u', w'))"
proof -
  have never: "\<forall>item w0. \<exists>w'. Insert Store_UserStorer item w0 = Return (None, w')"
    by (simp add: Store_UserStorer_def Store_Insert_def)
  have fails: "Insert mem_UserStorer (UserPtr None) (world_init []) = Return (Some (Error ''no record''), world_init [])"
    by (simp add: mem_UserStorer_def mem_Insert_def)
  from CreateUser_returns_Insert_error [of mem_UserStorer Background None "world_init []"]
  have "CreateUser (NewUserService (Some mem_UserStorer)) Background None (world_init [])
     = Return (Some (Error ''no record''), NewUserService (Some mem_UserStorer), world_init [])"
    by (simp add: fails)
  moreover from CreateUser_returns_Insert_error [of Store_UserStorer TODO "Some 0" "world_init NewDB"] never
  have "\<exists>u' w'. CreateUser (NewUserService (Some Store_UserStorer)) TODO (Some 0) (world_init NewDB)
         = Return (None, u', w')"
    by blast
  ultimately show ?thesis using never by blast
qed

text \<open>
  C2. \<^verbatim>\<open>RetrieveUser\<close> allocates a slot that was not allocated before and holds the zero
  \<^verbatim>\<open>User\<close>, leaves the allocated cells as they were, and calls \<open>s.Get(id, &slot)\<close>. If
  that returns an error, \<^verbatim>\<open>RetrieveUser\<close> returns the nil interface and the same error;
  if it returns nil, \<^verbatim>\<open>RetrieveUser\<close> returns what the slot then holds and a nil error.
\<close>

theorem RetrieveUser_delegates_to_Get:
  assumes "alloc_User User_zero w = (slot, w1)"
  shows "\<not> slot < brk w \<and> slot < brk w1 \<and> heap w1 slot = User_zero
    \<and> (\<forall>a. a < brk w \<longrightarrow> heap w1 a = heap w a)
    \<and> (\<forall>e w2. Get s id' (UserPtr (Some slot)) w1 = Return (Some e, w2) \<longrightarrow>
          RetrieveUser (NewUserService (Some s)) ctx id' w
            = Return ((NilVal, Some e), NewUserService (Some s), w2))
    \<and> (\<forall>w2. Get s id' (UserPtr (Some slot)) w1 = Return (None, w2) \<longrightarrow>
          RetrieveUser (NewUserService (Some s)) ctx id' w
            = Return ((UserVal (heap w2 slot), None), NewUserService (Some s), w2))"
proof -
  from assms have slot: "slot = brk w" and w1: "w1 = snd (alloc_User User_zero w)"
    by (auto simp: alloc_User_def)
  have fresh: "\<not> slot < brk w \<and> slot < brk w1 \<and> heap w1 slot = User_zero"
    using assms by (auto simp: alloc_User_def)
  have frame: "\<forall>a. a < brk w \<longrightarrow> heap w1 a = heap w a"
    using assms by (auto simp: alloc_User_def)
  have ret: "RetrieveUser (NewUserService (Some s)) ctx id' w =
     (case Get s id' (UserPtr (Some slot)) w1 of
        Panic \<Rightarrow> Panic
      | Return (err, w2) \<Rightarrow>
          (case err of
             None \<Rightarrow> Return ((UserVal (heap w2 slot), None), NewUserService (Some s), w2)
           | Some e \<Rightarrow> Return ((NilVal, Some e), NewUserService (Some s), w2)))"
    unfolding slot w1 by (rule RetrieveUser_Some) (rule store_NewUserService)
  have failure: "\<forall>e w2. Get s id' (UserPtr (Some slot)) w1 = Return (Some e, w2) \<longrightarrow>
          RetrieveUser (NewUserService (Some s)) ctx id' w
            = Return ((NilVal, Some e), NewUserService (Some s), w2)"
    by (simp add: ret)
  have success: "\<forall>w2. Get s id' (UserPtr (Some slot)) w1 = Return (None, w2) \<longrightarrow>
          RetrieveUser (NewUserService (Some s)) ctx id' w
            = Return ((UserVal (heap w2 slot), None), NewUserService (Some s), w2)"
    by (simp add: ret)
  from fresh frame failure success show ?thesis by blast
qed

text \<open>
  C2 at the list store holding one record: the identifier \<open>''missing''\<close> gives the nil
  interface and the store's error, the identifier \<open>''7''\<close> gives the record that the
  store wrote to the slot.
\<close>

theorem RetrieveUser_delegates_to_Get_witness:
  "alloc_User User_zero (world_init [(''7'', \<lparr>ID = ''7'', Email = ''x@y''\<rparr>)])
     = (0, snd (alloc_User User_zero (world_init [(''7'', \<lparr>ID = ''7'', Email = ''x@y''\<rparr>)])))
   \<and> RetrieveUser (NewUserService (Some mem_UserStorer)) Background ''missing''
        (world_init [(''7'', \<lparr>ID = ''7'', Email = ''x@y''\<rparr>)])
     = Return ((NilVal, Some (Error ''not found'')), NewUserService (Some mem_UserStorer),
         snd (alloc_User User_zero (world_init [(''7'', \<lparr>ID = ''7'', Email = ''x@y''\<rparr>)])))
   \<and> RetrieveUser (NewUserService (Some mem_UserStorer)) Background ''7''
        (world_init [(''7'', \<lparr>ID = ''7'', Email = ''x@y''\<rparr>)])
     = Return ((UserVal \<lparr>ID = ''7'', Email = ''x@y''\<rparr>, None), NewUserService (Some mem_UserStorer),
         (snd (alloc_User User_zero (world_init [(''7'', \<lparr>ID = ''7'', Email = ''x@y''\<rparr>)])))
           \<lparr>heap := (\<lambda>_. User_zero)(0 := \<lparr>ID = ''7'', Email = ''x@y''\<rparr>)\<rparr>)"
proof -
  let ?w = "world_init [(''7'', \<lparr>ID = ''7'', Email = ''x@y''\<rparr>)]"
  let ?w1 = "snd (alloc_User User_zero ?w)"
  have slot: "alloc_User User_zero ?w = (0, ?w1)"
    by (simp add: alloc_User_def world_init_def)
  have backend: "backend ?w1 = [(''7'', \<lparr>ID = ''7'', Email = ''x@y''\<rparr>)]"
    by (simp add: alloc_User_def world_init_def)
  have missing: "Get mem_UserStorer ''missing'' (UserPtr (Some 0)) ?w1
      = Return (Some (Error ''not found''), ?w1)"
    by (rule mem_Get_missing) (simp add: backend)
  have found: "Get mem_UserStorer ''7'' (UserPtr (Some 0)) ?w1
      = Return (None, ?w1\<lparr>heap := (heap ?w1)(0 := \<lparr>ID = ''7'', Email = ''x@y''\<rparr>)\<rparr>)"
    by (rule mem_Get_found) (simp add: backend)
  have heap: "(heap ?w1)(0 := \<lparr>ID = ''7'', Email = ''x@y''\<rparr>)
      = (\<lambda>_. User_zero)(0 := \<lparr>ID = ''7'', Email = ''x@y''\<rparr>)"
    by (simp add: alloc_User_def world_init_def)
  from RetrieveUser_delegates_to_Get [OF slot, where s = mem_UserStorer and id' = "''missing''"
      and ctx = Background] missing
  have r1: "RetrieveUser (NewUserService (Some mem_UserStorer)) Background ''missing'' ?w
     = Return ((NilVal, Some (Error ''not found'')), NewUserService (Some mem_UserStorer), ?w1)"
    by blast
  from RetrieveUser_delegates_to_Get [OF slot, where s = mem_UserStorer and id' = "''7''"
      and ctx = Background] found
  have "RetrieveUser (NewUserService (Some mem_UserStorer)) Background ''7'' ?w
     = Return ((UserVal (heap (?w1\<lparr>heap := (heap ?w1)(0 := \<lparr>ID = ''7'', Email = ''x@y''\<rparr>)\<rparr>) 0), None),
         NewUserService (Some mem_UserStorer),
         ?w1\<lparr>heap := (heap ?w1)(0 := \<lparr>ID = ''7'', Email = ''x@y''\<rparr>)\<rparr>)"
    by blast
  then have r2: "RetrieveUser (NewUserService (Some mem_UserStorer)) Background ''7'' ?w
     = Return ((UserVal \<lparr>ID = ''7'', Email = ''x@y''\<rparr>, None), NewUserService (Some mem_UserStorer),
         ?w1\<lparr>heap := (\<lambda>_. User_zero)(0 := \<lparr>ID = ''7'', Email = ''x@y''\<rparr>)\<rparr>)"
    by (simp add: heap)
  from slot r1 r2 show ?thesis by blast
qed

text \<open>
  C8. Whenever \<^verbatim>\<open>RetrieveUser\<close> returns, its record is the nil interface exactly when its
  error is not nil, and with a nil error the record is a \<^verbatim>\<open>User\<close> value. In front of
  \<^verbatim>\<open>db.Store\<close>, which never writes the slot, that value is the zero \<^verbatim>\<open>User\<close>.
\<close>

theorem RetrieveUser_nil_record_iff_error:
  "(RetrieveUser (NewUserService (Some s)) ctx id' w = Return ((v, e), u', w')
      \<longrightarrow> (v = NilVal \<longleftrightarrow> e \<noteq> None) \<and> (e = None \<longrightarrow> (\<exists>r. v = UserVal r)))
   \<and> RetrieveUser (NewUserService (Some Store_UserStorer)) ctx id' w0
       = Return ((UserVal User_zero, None), NewUserService (Some Store_UserStorer),
           snd (alloc_User User_zero w0))"
proof -
  have "(v = NilVal \<longleftrightarrow> e \<noteq> None) \<and> (e = None \<longrightarrow> (\<exists>r. v = UserVal r))"
    if ret: "RetrieveUser (NewUserService (Some s)) ctx id' w = Return ((v, e), u', w')"
  proof (cases "Get s id' (UserPtr (Some (brk w))) (snd (alloc_User User_zero w))")
    case Panic
    with ret show ?thesis
      by (simp add: RetrieveUser_Some [OF store_NewUserService])
  next
    case (Return p)
    obtain err w2 where p: "p = (err, w2)" by (cases p)
    show ?thesis
    proof (cases err)
      case None
      with ret Return p show ?thesis
        by (auto simp: RetrieveUser_Some [OF store_NewUserService])
    next
      case (Some x)
      with ret Return p show ?thesis
        by (auto simp: RetrieveUser_Some [OF store_NewUserService])
    qed
  qed
  then show ?thesis by (simp add: RetrieveUser_Store)
qed

text \<open>
  C8 at the list store without records (nil record, error) and at \<^verbatim>\<open>db.Store\<close> (zero
  record, nil error).
\<close>

theorem RetrieveUser_nil_record_iff_error_witness:
  "RetrieveUser (NewUserService (Some mem_UserStorer)) Background ''missing'' (world_init [])
     = Return ((NilVal, Some (Error ''not found'')), NewUserService (Some mem_UserStorer),
         snd (alloc_User User_zero (world_init [])))
   \<and> (NilVal = NilVal \<longleftrightarrow> Some (Error ''not found'') \<noteq> None)
   \<and> RetrieveUser (NewUserService (Some Store_UserStorer)) TODO ''1'' (world_init NewDB)
     = Return ((UserVal User_zero, None), NewUserService (Some Store_UserStorer),
         snd (alloc_User User_zero (world_init NewDB)))
   \<and> (UserVal User_zero = NilVal \<longleftrightarrow> (None :: error option) \<noteq> None)
   \<and> (\<exists>r. UserVal User_zero = UserVal r)"
proof -
  have r1: "RetrieveUser (NewUserService (Some mem_UserStorer)) Background ''missing'' (world_init [])
     = Return ((NilVal, Some (Error ''not found'')), NewUserService (Some mem_UserStorer),
         snd (alloc_User User_zero (world_init [])))"
    by (simp add: RetrieveUser_Some [OF store_NewUserService] mem_Get_missing alloc_User_def
          world_init_def)
  have r2: "RetrieveUser (NewUserService (Some Store_UserStorer)) TODO ''1'' (world_init NewDB)
     = Return ((UserVal User_zero, None), NewUserService (Some Store_UserStorer),
         snd (alloc_User User_zero (world_init NewDB)))"
    by (rule RetrieveUser_Store)
  from RetrieveUser_nil_record_iff_error [of mem_UserStorer Background "''missing''" "world_init []"
      NilVal "Some (Error ''not found'')"] r1
  have a: "NilVal = NilVal \<longleftrightarrow> Some (Error ''not found'') \<noteq> None"
    by blast
  from RetrieveUser_nil_record_iff_error [of Store_UserStorer TODO "''1''" "world_init NewDB"
      "UserVal User_zero" None] r2
  have b: "(UserVal User_zero = NilVal \<longleftrightarrow> (None :: error option) \<noteq> None)
      \<and> (\<exists>r. UserVal User_zero = UserVal r)"
    by blast
  from r1 r2 a b show ?thesis by blast
qed

text \<open>
  C5. \<^verbatim>\<open>NewUserService(s)\<close> is the service whose field \<open>store\<close> is \<open>s\<close>; a service is
  that field and nothing else; \<^verbatim>\<open>CreateUser\<close> and \<^verbatim>\<open>RetrieveUser\<close> return their
  receiver as they found it; so after any sequence of calls that returns, the field is
  still \<open>s\<close>.
\<close>

theorem service_keeps_its_store:
  "store (NewUserService s) = s
   \<and> NewUserService s = \<lparr>store = s\<rparr>
   \<and> (\<forall>u :: 's UserService. u = \<lparr>store = store u\<rparr>)
   \<and> (CreateUser u ctx user w = Return (err, u1, w1) \<longrightarrow> u1 = u)
   \<and> (RetrieveUser u ctx' id' w = Return (r, u2, w2) \<longrightarrow> u2 = u)
   \<and> (calls cs (NewUserService s) w = Return (u3, w3) \<longrightarrow> store u3 = s)"
proof -
  have new: "store (NewUserService s) = s" "NewUserService s = \<lparr>store = s\<rparr>"
    by (simp_all add: NewUserService_def)
  have only: "\<forall>u :: 's UserService. u = \<lparr>store = store u\<rparr>"
    by simp
  have create: "CreateUser u ctx user w = Return (err, u1, w1) \<longrightarrow> u1 = u"
    by (blast dest: CreateUser_receiver)
  have retrieve: "RetrieveUser u ctx' id' w = Return (r, u2, w2) \<longrightarrow> u2 = u"
    by (blast dest: RetrieveUser_receiver)
  have many: "calls cs (NewUserService s) w = Return (u3, w3) \<longrightarrow> store u3 = s"
    by (auto dest: calls_receiver simp: new)
  from new only create retrieve many show ?thesis by blast
qed

text \<open>C5 on three calls in a row in front of \<^verbatim>\<open>db.Store\<close>.\<close>

theorem service_keeps_its_store_witness:
  "CreateUser (NewUserService (Some Store_UserStorer)) Background (Some 0) (world_init NewDB)
     = Return (None, NewUserService (Some Store_UserStorer), world_init NewDB)
   \<and> RetrieveUser (NewUserService (Some Store_UserStorer)) TODO ''1'' (world_init NewDB)
     = Return ((UserVal User_zero, None), NewUserService (Some Store_UserStorer),
         snd (alloc_User User_zero (world_init NewDB)))
   \<and> calls [Create Background (Some 0), Retrieve TODO ''1'', Create TODO None]
        (NewUserService (Some Store_UserStorer)) (world_init NewDB)
     = Return (NewUserService (Some Store_UserStorer), snd (alloc_User User_zero (world_init NewDB)))
   \<and> store (NewUserService (Some Store_UserStorer)) = Some Store_UserStorer"
proof -
  note inst = service_keeps_its_store [of "Some Store_UserStorer"
      "NewUserService (Some Store_UserStorer)" Background "Some 0" "world_init NewDB"
      None "NewUserService (Some Store_UserStorer)" "world_init NewDB"
      TODO "''1''" "(UserVal User_zero, None)" "NewUserService (Some Store_UserStorer)"
      "snd (alloc_User User_zero (world_init NewDB))"
      "[Create Background (Some 0), Retrieve TODO ''1'', Create TODO None]"
      "NewUserService (Some Store_UserStorer)" "snd (alloc_User User_zero (world_init NewDB))"]
  have c: "CreateUser (NewUserService (Some Store_UserStorer)) Background (Some 0) (world_init NewDB)
     = Return (None, NewUserService (Some Store_UserStorer), world_init NewDB)"
    by (rule CreateUser_Store)
  have r: "RetrieveUser (NewUserService (Some Store_UserStorer)) TODO ''1'' (world_init NewDB)
     = Return ((UserVal User_zero, None), NewUserService (Some Store_UserStorer),
         snd (alloc_User User_zero (world_init NewDB)))"
    by (rule RetrieveUser_Store)
  from inst calls_Store_example have "store (NewUserService (Some Store_UserStorer)) = Some Store_UserStorer"
    by blast
  with c r calls_Store_example show ?thesis by blast
qed

subsection \<open>The store of the example\<close>

text \<open>
  C3, as the specification words it: \<^verbatim>\<open>Store.Get\<close> returns an error for an identifier
  without a stored record. The code does not: in the world of a new process with one
  zero-valued slot, where nothing was ever stored, \<^verbatim>\<open>Get\<close> of \<open>''missing''\<close> returns nil
  and the slot still holds the zero \<^verbatim>\<open>User\<close>.
\<close>

theorem Store_Get_missing_counterexample:
  "Store_Get ''missing'' (UserPtr (Some 0)) (snd (alloc_User User_zero (world_init NewDB)))
     = Return (None, snd (alloc_User User_zero (world_init NewDB)))
   \<and> heap (snd (alloc_User User_zero (world_init NewDB))) 0 = User_zero"
  by (simp add: Store_Get_def alloc_User_def world_init_def)

text \<open>
  C3, amended: \<^verbatim>\<open>Store.Get\<close> is a placeholder without a lookup. For every identifier and
  slot it returns nil with the heap as it was, and it neither returns an error nor panics.
\<close>

theorem Store_Get_never_fails:
  "(\<exists>w'. Store_Get id' slot w = Return (None, w') \<and> heap w' = heap w)
   \<and> Store_Get id' slot w \<noteq> Return (Some e, w2)
   \<and> Store_Get id' slot w \<noteq> Panic"
  by (simp add: Store_Get_def)

text \<open>
  C4. \<^verbatim>\<open>db.Store\<close> does nothing: \<^verbatim>\<open>Insert\<close> and \<^verbatim>\<open>Get\<close> return nil in the world they
  were called in, so no cell, the output slot included, and no state of the store changes;
  and these are the methods a service reaches through the interface.
\<close>

theorem Store_is_noop:
  "Store_Insert item w = Return (None, w) \<and> Store_Get id' slot w = Return (None, w)
   \<and> Insert Store_UserStorer = Store_Insert \<and> Get Store_UserStorer = Store_Get"
  by (simp add: Store_Insert_def Store_Get_def Store_UserStorer_def)

text \<open>
  C6. In front of \<^verbatim>\<open>db.Store\<close>, \<^verbatim>\<open>CreateUser\<close> taking the pointer to a record and
  \<^verbatim>\<open>CreateUser\<close> taking the record by value have the same outcome: a nil error, the
  service and the world (the caller's record in it) as they were.
\<close>

theorem CreateUser_pointer_value_equivalent:
  "CreateUser (NewUserService (Some Store_UserStorer)) ctx (Some a) w
     = CreateUser_value (NewUserService (Some Store_UserStorer)) ctx (heap w a) w
   \<and> CreateUser (NewUserService (Some Store_UserStorer)) ctx (Some a) w
     = Return (None, NewUserService (Some Store_UserStorer), w)
   \<and> CreateUser_value (NewUserService (Some Store_UserStorer)) ctx (heap w a) w
     = Return (None, NewUserService (Some Store_UserStorer), w)"
  by (simp add: CreateUser_Store CreateUser_value_Store)

text \<open>
  C9. In front of \<^verbatim>\<open>db.Store\<close>, \<^verbatim>\<open>CreateUser\<close> returns and the record that the caller
  passed holds the same \<open>ID\<close> and the same \<open>Email\<close> afterwards.
\<close>

theorem CreateUser_Store_leaves_record:
  "(\<exists>w'. CreateUser (NewUserService (Some Store_UserStorer)) ctx (Some a) w
            = Return (None, NewUserService (Some Store_UserStorer), w')
         \<and> ID (heap w' a) = ID (heap w a) \<and> Email (heap w' a) = Email (heap w a)
         \<and> heap w' a = heap w a)"
  by (simp add: CreateUser_Store)

text \<open>
  C10. \<^verbatim>\<open>CreateUser\<close> with a nil \<^verbatim>\<open>*User\<close> in front of \<^verbatim>\<open>db.Store\<close> returns nil
  without a panic; in front of any store it panics only if the store's \<^verbatim>\<open>Insert\<close>
  does, the pointer being handed on unread.
\<close>

theorem CreateUser_nil_user:
  "CreateUser (NewUserService (Some Store_UserStorer)) ctx None w
     = Return (None, NewUserService (Some Store_UserStorer), w)
   \<and> (CreateUser (NewUserService (Some s)) ctx None w' = Panic
        \<longleftrightarrow> Insert s (UserPtr None) w' = Panic)"
proof -
  have "CreateUser (NewUserService (Some s)) ctx None w' = Panic
        \<longleftrightarrow> Insert s (UserPtr None) w' = Panic"
    by (cases "Insert s (UserPtr None) w'")
       (simp_all add: CreateUser_Some [OF store_NewUserService] split: prod.splits)
  then show ?thesis by (simp add: CreateUser_Store)
qed

subsection \<open>The wiring\<close>

text \<open>
  C7. The wiring of \<^verbatim>\<open>main\<close> in front of \<^verbatim>\<open>db.Store\<close>, run with the record of
  identifier \<open>''1''\<close> and e-mail \<open>''a@example.com''\<close>: its call of \<^verbatim>\<open>CreateUser\<close> returns
  nil, and the standard output is what \<^verbatim>\<open>Printf\<close> and \<^verbatim>\<open>Println\<close> write after it, with
  no error text. That the wiring calls \<^verbatim>\<open>CreateUser\<close> once shows in front of the list
  store, which ends up holding this record once. \<^verbatim>\<open>main\<close> as written, with the record
  \<^verbatim>\<open>service.User{}\<close>, prints no error text either.
\<close>

theorem wiring_scenario_prints_no_error:
  "wiring Store_UserStorer NewDB \<lparr>ID = ''1'', Email = ''a@example.com''\<rparr>
     = Return (''User created: &{ID:1 Email:a@example.com}41 <nil>'' @ [CHR 0x0A],
         snd (alloc_User \<lparr>ID = ''1'', Email = ''a@example.com''\<rparr> (world_init NewDB)))
   \<and> CreateUser (NewUserService (Some Store_UserStorer)) Background (Some 0)
        (snd (alloc_User \<lparr>ID = ''1'', Email = ''a@example.com''\<rparr> (world_init NewDB)))
     = Return (None, NewUserService (Some Store_UserStorer),
         snd (alloc_User \<lparr>ID = ''1'', Email = ''a@example.com''\<rparr> (world_init NewDB)))
   \<and> wiring mem_UserStorer [] \<lparr>ID = ''1'', Email = ''a@example.com''\<rparr>
     = Return (''User created: &{ID:1 Email:a@example.com}41 <nil>'' @ [CHR 0x0A],
         (snd (alloc_User \<lparr>ID = ''1'', Email = ''a@example.com''\<rparr> (world_init [])))
           \<lparr>backend := [(''1'', \<lparr>ID = ''1'', Email = ''a@example.com''\<rparr>)]\<rparr>)
   \<and> main = Return (''User created: &{ID: Email:}27 <nil>'' @ [CHR 0x0A],
         snd (alloc_User User_zero (world_init NewDB)))"
proof -
  let ?r = "\<lparr>ID = ''1'', Email = ''a@example.com''\<rparr>"
  have stub: "wiring Store_UserStorer NewDB ?r
     = Return (''User created: &{ID:1 Email:a@example.com}41 <nil>'' @ [CHR 0x0A],
         snd (alloc_User ?r (world_init NewDB)))"
    by (simp add: wiring_def CreateUser_Store alloc_User_def world_init_def fmt_User_ptr_def)
  have create: "CreateUser (NewUserService (Some Store_UserStorer)) Background (Some 0)
        (snd (alloc_User ?r (world_init NewDB)))
     = Return (None, NewUserService (Some Store_UserStorer), snd (alloc_User ?r (world_init NewDB)))"
    by (rule CreateUser_Store)
  have mem: "wiring mem_UserStorer [] ?r
     = Return (''User created: &{ID:1 Email:a@example.com}41 <nil>'' @ [CHR 0x0A],
         (snd (alloc_User ?r (world_init []))) \<lparr>backend := [(''1'', ?r)]\<rparr>)"
    by (simp add: wiring_def CreateUser_Some [OF store_NewUserService] mem_Insert_pointer
          alloc_User_def world_init_def fmt_User_ptr_def)
  have src: "main = Return (''User created: &{ID: Email:}27 <nil>'' @ [CHR 0x0A],
         snd (alloc_User User_zero (world_init NewDB)))"
    by (simp add: main_wiring wiring_def CreateUser_Store alloc_User_def world_init_def
          fmt_User_ptr_def User_zero_def)
  from stub create mem src show ?thesis by blast
qed

end
